theory Spec2Isabelle
  imports Complex_Main "HOL-Library.Word" "HOL-Library.Monad_Syntax"
begin

unbundle bit_operations_syntax

section \<open>Conventions of the embedding\<close>

text \<open>
  The development embeds the FRTA routing protocol of \<^verbatim>\<open>src/frta-routing/model\<close>:
  the wire codec (\<^verbatim>\<open>frta-routing-header.cc\<close>), the collision detector
  (\<^verbatim>\<open>frta-collision-detector.cc\<close>) and the protocol handlers
  (\<^verbatim>\<open>frta-routing-protocol.cc\<close>).

  \<^item> An \<^verbatim>\<open>Ipv4Address\<close> is its 32-bit value, \<^verbatim>\<open>uint32_t\<close> is \<open>32 word\<close>
    (so \<open>+\<close> wraps), \<^verbatim>\<open>uint8_t\<close> is \<open>8 word\<close>.
  \<^item> A \<^verbatim>\<open>double\<close> that is only moved around by the codec is its 64-bit IEEE-754
    pattern (\<open>64 word\<close>); a \<^verbatim>\<open>double\<close> that the protocol computes with is a
    \<open>real\<close>. Rounding, infinities and NaN are outside the model.
  \<^item> A \<^verbatim>\<open>Time\<close> is an \<open>int\<close> number of nanoseconds.
  \<^item> A \<^verbatim>\<open>std::map\<close> is a partial function, a \<^verbatim>\<open>std::set\<close> a set.
  \<^item> A member function that mutates \<^verbatim>\<open>this\<close> takes the object last and returns the
    new object, together with what it returns or emits.
  \<^item> What a function reads from the simulator, the IP stack and the random source is an
    argument; what it hands to the socket or the scheduler is a returned list of actions.

  Of \<^verbatim>\<open>frta-routing-protocol.cc\<close>, the path search (\<^verbatim>\<open>FindAllPaths\<close>,
  \<^verbatim>\<open>SelectTrustedPath\<close>, \<^verbatim>\<open>IsPathTrusted\<close>), \<^verbatim>\<open>SelectOptimalPath\<close>,
  \<^verbatim>\<open>RouteInput\<close>, \<^verbatim>\<open>CalculateTrustValue\<close>, printing and the wiring to the IP stack
  are not embedded; none of them stores a trust value.
\<close>

type_synonym byte = "8 word"
type_synonym Ipv4Address = "32 word"
type_synonym Time = int

section \<open>Buffer iterator\<close>

text \<open>
  Modelled from the spec: \<^verbatim>\<open>Buffer::Iterator::WriteU8\<close> belongs to the host framework and
  is not under \<^verbatim>\<open>src/\<close>. It appends one byte at the iterator.
\<close>
definition WriteU8 :: "byte \<Rightarrow> byte list" where
  "WriteU8 b = [b]"

text \<open>
  Modelled from the spec: \<^verbatim>\<open>Buffer::Iterator::WriteHtonU32\<close> (host framework, not under
  \<^verbatim>\<open>src/\<close>) writes a 32-bit value in network byte order, fixed width, no padding: four
  bytes, most significant first.
\<close>
definition WriteHtonU32 :: "32 word \<Rightarrow> byte list" where
  "WriteHtonU32 d =
     [ucast (drop_bit 24 d), ucast (drop_bit 16 d), ucast (drop_bit 8 d), ucast d]"

text \<open>
  Modelled from the spec: \<^verbatim>\<open>Buffer::Iterator::WriteHtonU64\<close> (host framework, not under
  \<^verbatim>\<open>src/\<close>) writes a 64-bit value in network byte order: eight bytes, most significant
  first.
\<close>
definition WriteHtonU64 :: "64 word \<Rightarrow> byte list" where
  "WriteHtonU64 d =
     [ucast (drop_bit 56 d), ucast (drop_bit 48 d), ucast (drop_bit 40 d), ucast (drop_bit 32 d),
      ucast (drop_bit 24 d), ucast (drop_bit 16 d), ucast (drop_bit 8 d), ucast d]"

text \<open>
  Modelled from the spec: \<^verbatim>\<open>Buffer::Iterator::ReadU8\<close> (host framework, not under
  \<^verbatim>\<open>src/\<close>) reads one byte and advances; a decoder fails on a truncated buffer, which
  is the value \<open>None\<close>.
\<close>
fun ReadU8 :: "byte list \<Rightarrow> (byte \<times> byte list) option" where
  "ReadU8 (b # rest) = Some (b, rest)"
| "ReadU8 [] = None"

text \<open>
  Modelled from the spec: \<^verbatim>\<open>Buffer::Iterator::ReadNtohU32\<close> (host framework, not under
  \<^verbatim>\<open>src/\<close>) reads four bytes in network byte order and advances; \<open>None\<close> on a
  truncated buffer.
\<close>
fun ReadNtohU32 :: "byte list \<Rightarrow> (32 word \<times> byte list) option" where
  "ReadNtohU32 (b0 # b1 # b2 # b3 # rest) =
     Some (push_bit 24 (ucast b0) OR push_bit 16 (ucast b1) OR push_bit 8 (ucast b2) OR ucast b3,
           rest)"
| "ReadNtohU32 _ = None"

text \<open>
  Modelled from the spec: \<^verbatim>\<open>Buffer::Iterator::ReadNtohU64\<close> (host framework, not under
  \<^verbatim>\<open>src/\<close>) reads eight bytes in network byte order and advances; \<open>None\<close> on a
  truncated buffer.
\<close>
fun ReadNtohU64 :: "byte list \<Rightarrow> (64 word \<times> byte list) option" where
  "ReadNtohU64 (b0 # b1 # b2 # b3 # b4 # b5 # b6 # b7 # rest) =
     Some (push_bit 56 (ucast b0) OR push_bit 48 (ucast b1) OR push_bit 40 (ucast b2) OR
           push_bit 32 (ucast b3) OR push_bit 24 (ucast b4) OR push_bit 16 (ucast b5) OR
           push_bit 8 (ucast b6) OR ucast b7,
           rest)"
| "ReadNtohU64 _ = None"

section \<open>Wire codec (frta-routing-header.cc)\<close>

subsection \<open>FrtaHeader\<close>

definition FRTA_ROUTE_REQUEST :: byte where "FRTA_ROUTE_REQUEST = 1"
definition FRTA_ROUTE_REPLY :: byte where "FRTA_ROUTE_REPLY = 2"
definition FRTA_ROUTE_ADVERTISEMENT :: byte where "FRTA_ROUTE_ADVERTISEMENT = 3"
definition FRTA_TRUST_UPDATE :: byte where "FRTA_TRUST_UPDATE = 4"

record FrtaHeader =
  m_type :: byte

definition FrtaHeader_GetSerializedSize :: "FrtaHeader \<Rightarrow> nat" where
  "FrtaHeader_GetSerializedSize h = 1"

definition FrtaHeader_Serialize :: "FrtaHeader \<Rightarrow> byte list" where
  "FrtaHeader_Serialize h = WriteU8 (m_type h)"

definition FrtaHeader_Deserialize :: "byte list \<Rightarrow> (FrtaHeader \<times> nat) option" where
  "FrtaHeader_Deserialize start = do {
     (type, _) \<leftarrow> ReadU8 start;
     let h = (if type \<ge> 1 \<and> type \<le> 4 then \<lparr>m_type = type\<rparr>
              else \<lparr>m_type = FRTA_ROUTE_REQUEST\<rparr>);
     Some (h, FrtaHeader_GetSerializedSize h)
   }"

definition GetMessageType :: "FrtaHeader \<Rightarrow> byte" where
  "GetMessageType h = m_type h"

subsection \<open>RouteRequestHeader\<close>

record RouteRequestHeader =
  req_destination :: Ipv4Address
  req_source :: Ipv4Address
  req_hopCount :: "32 word"

definition RouteRequestHeader_GetSerializedSize :: "RouteRequestHeader \<Rightarrow> nat" where
  "RouteRequestHeader_GetSerializedSize h = 8 + 8 + 4"

definition RouteRequestHeader_Serialize :: "RouteRequestHeader \<Rightarrow> byte list" where
  "RouteRequestHeader_Serialize h =
     WriteHtonU32 (req_destination h) @ WriteHtonU32 (req_source h) @
     WriteHtonU32 (req_hopCount h)"

definition RouteRequestHeader_Deserialize ::
  "byte list \<Rightarrow> (RouteRequestHeader \<times> nat) option" where
  "RouteRequestHeader_Deserialize start = do {
     (destination, i1) \<leftarrow> ReadNtohU32 start;
     (source, i2) \<leftarrow> ReadNtohU32 i1;
     (hopCount, _) \<leftarrow> ReadNtohU32 i2;
     let h = \<lparr>req_destination = destination, req_source = source, req_hopCount = hopCount\<rparr>;
     Some (h, RouteRequestHeader_GetSerializedSize h)
   }"

subsection \<open>RouteReplyHeader\<close>

text \<open>
  The type parameter \<open>'d\<close> is the representation of the \<^verbatim>\<open>double m_trust\<close>: the codec
  works on the bit pattern (\<open>64 word\<close>, which makes both \<^verbatim>\<open>reinterpret_cast\<close>s the
  identity), the protocol on \<open>real\<close>.
\<close>

record 'd RouteReplyHeader =
  rep_destination :: Ipv4Address
  rep_nextHop :: Ipv4Address
  rep_trust :: 'd

definition RouteReplyHeader_GetSerializedSize :: "'d RouteReplyHeader \<Rightarrow> nat" where
  "RouteReplyHeader_GetSerializedSize h = 8 + 8 + 8"

definition RouteReplyHeader_Serialize :: "64 word RouteReplyHeader \<Rightarrow> byte list" where
  "RouteReplyHeader_Serialize h =
     WriteHtonU32 (rep_destination h) @ WriteHtonU32 (rep_nextHop h) @
     WriteHtonU64 (rep_trust h)"

definition RouteReplyHeader_Deserialize ::
  "byte list \<Rightarrow> (64 word RouteReplyHeader \<times> nat) option" where
  "RouteReplyHeader_Deserialize start = do {
     (destination, i1) \<leftarrow> ReadNtohU32 start;
     (nextHop, i2) \<leftarrow> ReadNtohU32 i1;
     (trust, _) \<leftarrow> ReadNtohU64 i2;
     let h = \<lparr>rep_destination = destination, rep_nextHop = nextHop, rep_trust = trust\<rparr>;
     Some (h, RouteReplyHeader_GetSerializedSize h)
   }"

subsection \<open>RouteAdvertisementHeader\<close>

record 'd RouteAdvertisementHeader =
  adv_destination :: Ipv4Address
  adv_nextHop :: Ipv4Address
  adv_trust :: 'd
  adv_hopCount :: "32 word"

definition RouteAdvertisementHeader_GetSerializedSize ::
  "'d RouteAdvertisementHeader \<Rightarrow> nat" where
  "RouteAdvertisementHeader_GetSerializedSize h = 8 + 8 + 8 + 4"

definition RouteAdvertisementHeader_Serialize ::
  "64 word RouteAdvertisementHeader \<Rightarrow> byte list" where
  "RouteAdvertisementHeader_Serialize h =
     WriteHtonU32 (adv_destination h) @ WriteHtonU32 (adv_nextHop h) @
     WriteHtonU64 (adv_trust h) @ WriteHtonU32 (adv_hopCount h)"

definition RouteAdvertisementHeader_Deserialize ::
  "byte list \<Rightarrow> (64 word RouteAdvertisementHeader \<times> nat) option" where
  "RouteAdvertisementHeader_Deserialize start = do {
     (destination, i1) \<leftarrow> ReadNtohU32 start;
     (nextHop, i2) \<leftarrow> ReadNtohU32 i1;
     (trust, i3) \<leftarrow> ReadNtohU64 i2;
     (hopCount, _) \<leftarrow> ReadNtohU32 i3;
     let h = \<lparr>adv_destination = destination, adv_nextHop = nextHop, adv_trust = trust,
              adv_hopCount = hopCount\<rparr>;
     Some (h, RouteAdvertisementHeader_GetSerializedSize h)
   }"

section \<open>Collision detector (frta-collision-detector.cc)\<close>

record TransmissionStats =
  lastTransmission :: Time
  packetCount :: "32 word"
  collisionProbability :: real

text \<open>
  The counters are \<^verbatim>\<open>uint32_t\<close> in \<^verbatim>\<open>frta-collision-detector.h\<close>. The member
  \<^verbatim>\<open>m_collisionCounts\<close> is not touched by the functions embedded here and is left out.
\<close>

record FrtaCollisionDetector =
  m_collisionProbabilityCache :: real
  m_cacheValid :: bool
  m_successCount :: "32 word"
  m_totalCount :: "32 word"
  m_transmissionStats :: "Ipv4Address \<rightharpoonup> TransmissionStats"

text \<open>The constructor \<^verbatim>\<open>FrtaCollisionDetector::FrtaCollisionDetector\<close>.\<close>

definition FrtaCollisionDetector_new :: FrtaCollisionDetector where
  "FrtaCollisionDetector_new =
     \<lparr>m_collisionProbabilityCache = 0.0, m_cacheValid = False, m_successCount = 0,
      m_totalCount = 0, m_transmissionStats = Map.empty\<rparr>"

text \<open>
  \<^verbatim>\<open>std::map::operator[]\<close>: the value stored under the key, after inserting the
  value-initialised default when the key is absent.
\<close>

definition subscript :: "('k \<rightharpoonup> 'v) \<Rightarrow> 'k \<Rightarrow> 'v \<Rightarrow> 'v \<times> ('k \<rightharpoonup> 'v)" where
  "subscript m k dflt = (case m k of Some v \<Rightarrow> (v, m) | None \<Rightarrow> (dflt, m(k \<mapsto> dflt)))"

definition UpdateTransmissionStats ::
  "Time \<Rightarrow> Ipv4Address \<Rightarrow> bool \<Rightarrow> FrtaCollisionDetector \<Rightarrow> FrtaCollisionDetector" where
  "UpdateTransmissionStats now sender success d =
     (let (stats0, ts) = subscript (m_transmissionStats d) sender
                           \<lparr>lastTransmission = 0, packetCount = 0, collisionProbability = 0\<rparr>;
          stats1 = stats0\<lparr>lastTransmission := now, packetCount := packetCount stats0 + 1\<rparr>;
          alpha = (0.1 :: real);
          stats2 = (if success
                    then stats1\<lparr>collisionProbability := (1 - alpha) * collisionProbability stats1\<rparr>
                    else stats1\<lparr>collisionProbability :=
                                   alpha + (1 - alpha) * collisionProbability stats1\<rparr>);
          d1 = d\<lparr>m_transmissionStats := ts(sender \<mapsto> stats2), m_totalCount := m_totalCount d + 1\<rparr>;
          d2 = (if success then d1\<lparr>m_successCount := m_successCount d1 + 1\<rparr> else d1)
      in d2\<lparr>m_cacheValid := False\<rparr>)"

definition GetCollisionProbability :: "FrtaCollisionDetector \<Rightarrow> real \<times> FrtaCollisionDetector" where
  "GetCollisionProbability d =
     (let d' = (if \<not> m_cacheValid d
                then (if m_totalCount d = 0
                      then d\<lparr>m_collisionProbabilityCache := 0.0\<rparr>
                      else d\<lparr>m_collisionProbabilityCache :=
                               1.0 - real (unat (m_successCount d)) / real (unat (m_totalCount d))\<rparr>)
                     \<lparr>m_cacheValid := True\<rparr>
                else d)
      in (m_collisionProbabilityCache d', d'))"

text \<open>
  The formula in the words of the specification: \<open>0.0\<close> if \<open>total_count = 0\<close>, else
  \<open>1 - success_count / total_count\<close>.
\<close>

definition spec_global_collision_probability :: "nat \<Rightarrow> nat \<Rightarrow> real" where
  "spec_global_collision_probability success_count total_count =
     (if total_count = 0 then 0 else 1 - real success_count / real total_count)"

text \<open>A client of the detector: any interleaving of updates and queries.\<close>

datatype detector_call = Update Time Ipv4Address bool | Query

fun detector_calls :: "detector_call list \<Rightarrow> FrtaCollisionDetector \<Rightarrow> FrtaCollisionDetector" where
  "detector_calls [] d = d"
| "detector_calls (Update now sender success # cs) d =
     detector_calls cs (UpdateTransmissionStats now sender success d)"
| "detector_calls (Query # cs) d = detector_calls cs (snd (GetCollisionProbability d))"

fun updates :: "detector_call list \<Rightarrow> nat" where
  "updates [] = 0"
| "updates (Update now sender success # cs) = Suc (updates cs)"
| "updates (Query # cs) = updates cs"

fun successes :: "detector_call list \<Rightarrow> nat" where
  "successes [] = 0"
| "successes (Update now sender success # cs) = (if success then Suc (successes cs) else successes cs)"
| "successes (Query # cs) = successes cs"

section \<open>Routing protocol (frta-routing-protocol.cc)\<close>

subsection \<open>Host framework\<close>

text \<open>
  Modelled from the spec: \<^verbatim>\<open>Seconds\<close> (host framework, not under \<^verbatim>\<open>src/\<close>) is a
  \<^verbatim>\<open>Time\<close> of that many seconds, here in nanoseconds.
\<close>
definition Seconds :: "int \<Rightarrow> Time" where
  "Seconds s = s * 1000000000"

text \<open>
  Modelled from the spec: \<^verbatim>\<open>MicroSeconds\<close> (host framework, not under \<^verbatim>\<open>src/\<close>) is
  a \<^verbatim>\<open>Time\<close> of that many microseconds, here in nanoseconds.
\<close>
definition MicroSeconds :: "nat \<Rightarrow> Time" where
  "MicroSeconds us = int us * 1000"

text \<open>
  Modelled from the spec: \<^verbatim>\<open>UniformRandomVariable::GetInteger(min, max)\<close> (host
  framework, not under \<^verbatim>\<open>src/\<close>) is the uniform random source; it returns an integer
  between \<open>min\<close> and \<open>max\<close>, both included. The third argument is the raw draw.
\<close>
definition GetInteger :: "nat \<Rightarrow> nat \<Rightarrow> nat \<Rightarrow> nat" where
  "GetInteger lo hi raw = lo + raw mod (hi - lo + 1)"

text \<open>
  Modelled from the spec: \<^verbatim>\<open>Ipv4Address::GetBroadcast\<close> (host framework, not under
  \<^verbatim>\<open>src/\<close>) is the broadcast address with its standard meaning, 255.255.255.255.
\<close>
definition GetBroadcast :: Ipv4Address where
  "GetBroadcast = 0xFFFFFFFF"

text \<open>
  Modelled from the spec: \<^verbatim>\<open>Ipv4Address::IsBroadcast\<close> (host framework, not under
  \<^verbatim>\<open>src/\<close>) tests for the broadcast address.
\<close>
definition IsBroadcast :: "Ipv4Address \<Rightarrow> bool" where
  "IsBroadcast a = (a = 0xFFFFFFFF)"

text \<open>
  Modelled from the spec: \<^verbatim>\<open>Ipv4Address::GetZero\<close> (host framework, not under
  \<^verbatim>\<open>src/\<close>) is the address 0.0.0.0.
\<close>
definition GetZero :: Ipv4Address where
  "GetZero = 0"

text \<open>
  Modelled from the spec: \<^verbatim>\<open>Packet::RemoveHeader\<close> (host framework, not under
  \<^verbatim>\<open>src/\<close>) runs the header's \<^verbatim>\<open>Deserialize\<close> at the start of the buffer and removes
  as many bytes as it reports.
\<close>
definition RemoveHeader ::
  "(byte list \<Rightarrow> ('h \<times> nat) option) \<Rightarrow> byte list \<Rightarrow> ('h \<times> byte list) option" where
  "RemoveHeader deserialize buf = do { (h, n) \<leftarrow> deserialize buf; Some (h, drop n buf) }"

text \<open>
  Modelled from the spec: \<^verbatim>\<open>Packet::PeekHeader\<close> (host framework, not under
  \<^verbatim>\<open>src/\<close>) runs the header's \<^verbatim>\<open>Deserialize\<close> at the start of the buffer and removes
  nothing.
\<close>
definition PeekHeader :: "(byte list \<Rightarrow> ('h \<times> nat) option) \<Rightarrow> byte list \<Rightarrow> 'h option" where
  "PeekHeader deserialize buf = do { (h, n) \<leftarrow> deserialize buf; Some h }"

subsection \<open>Data\<close>

record RouteEntry =
  nextHop :: Ipv4Address
  trust :: real
  lastUpdate :: Time
  hopCount :: "32 word"

text \<open>An \<^verbatim>\<open>Ipv4Route\<close> without its output device.\<close>

record Ipv4Route =
  route_destination :: Ipv4Address
  route_gateway :: Ipv4Address
  route_source :: Ipv4Address

text \<open>The two values of \<^verbatim>\<open>Socket::SocketErrno\<close> that the protocol assigns.\<close>

datatype SocketErrno = ERROR_NOTERROR | ERROR_NOROUTETOHOST

text \<open>
  A packet is its buffer and its \<^verbatim>\<open>TrustTag\<close>, if it has one. The buffer of a received
  packet is its bytes. The buffer of a packet that the node builds is the list of the headers
  added to it, the last added first, which is their order on the wire.
\<close>

record 'b Packet =
  buffer :: 'b
  trustTag :: "real option"

datatype header =
    Frta FrtaHeader
  | RouteRequest RouteRequestHeader
  | RouteReply "real RouteReplyHeader"
  | RouteAdvertisement "real RouteAdvertisementHeader"

text \<open>
  Modelled from the spec: \<^verbatim>\<open>Create<Packet>()\<close> (host framework, not under \<^verbatim>\<open>src/\<close>)
  is the empty datagram, without headers and without tag.
\<close>
definition Create_Packet :: "header list Packet" where
  "Create_Packet = \<lparr>buffer = [], trustTag = None\<rparr>"

text \<open>
  Modelled from the spec: \<^verbatim>\<open>Packet::AddHeader\<close> (host framework, not under \<^verbatim>\<open>src/\<close>)
  puts the header in front of what the packet holds.
\<close>
definition AddHeader :: "header \<Rightarrow> header list Packet \<Rightarrow> header list Packet" where
  "AddHeader h packet = packet\<lparr>buffer := h # buffer packet\<rparr>"


text \<open>
  Modelled from the spec: the bytes that \<^verbatim>\<open>Packet::AddHeader\<close> (host framework, not under
  \<^verbatim>\<open>src/\<close>) puts in front of the datagram for one header. It reserves as many bytes as
  \<^verbatim>\<open>GetSerializedSize\<close> reports and has \<^verbatim>\<open>Serialize\<close> write them from the first on;
  \<open>unwritten i\<close> is the content of the reserved byte at offset \<open>i\<close> when \<^verbatim>\<open>Serialize\<close> does
  not reach it.
\<close>
definition AddHeader_bytes :: "(nat \<Rightarrow> byte) \<Rightarrow> nat \<Rightarrow> byte list \<Rightarrow> byte list" where
  "AddHeader_bytes unwritten n written = written @ map unwritten [length written..<n]"

text \<open>
  The bytes of each header of the protocol, \<open>bits\<close> being the bit pattern of a \<^verbatim>\<open>double\<close>,
  which \<^verbatim>\<open>Serialize\<close> writes for a trust value.
\<close>

fun header_bytes :: "(real \<Rightarrow> 64 word) \<Rightarrow> (nat \<Rightarrow> byte) \<Rightarrow> header \<Rightarrow> byte list" where
  "header_bytes bits unwritten (Frta h) =
     AddHeader_bytes unwritten (FrtaHeader_GetSerializedSize h) (FrtaHeader_Serialize h)"
| "header_bytes bits unwritten (RouteRequest h) =
     AddHeader_bytes unwritten (RouteRequestHeader_GetSerializedSize h)
       (RouteRequestHeader_Serialize h)"
| "header_bytes bits unwritten (RouteReply h) =
     (let h = \<lparr>rep_destination = rep_destination h, rep_nextHop = rep_nextHop h,
               rep_trust = bits (rep_trust h)\<rparr>
      in AddHeader_bytes unwritten (RouteReplyHeader_GetSerializedSize h)
           (RouteReplyHeader_Serialize h))"
| "header_bytes bits unwritten (RouteAdvertisement h) =
     (let h = \<lparr>adv_destination = adv_destination h, adv_nextHop = adv_nextHop h,
               adv_trust = bits (adv_trust h), adv_hopCount = adv_hopCount h\<rparr>
      in AddHeader_bytes unwritten (RouteAdvertisementHeader_GetSerializedSize h)
           (RouteAdvertisementHeader_Serialize h))"

text \<open>
  The datagram that a receiver gets when the node sends a packet it built: the bytes of its
  headers, the last added first, and its tag.
\<close>

definition wire ::
  "(real \<Rightarrow> 64 word) \<Rightarrow> (nat \<Rightarrow> byte) \<Rightarrow> header list Packet \<Rightarrow> byte list Packet" where
  "wire bits unwritten packet =
     \<lparr>buffer = concat (map (header_bytes bits unwritten) (buffer packet)),
      trustTag = trustTag packet\<rparr>"

text \<open>
  What a handler emits: a datagram handed to the socket (always port 9), a call scheduled after
  a delay, and the two log lines that report a message type as wrong or unknown.
\<close>

datatype event =
    ForwardRouteRequest_event "header list Packet"
  | SendDelayedReply_event "header list Packet" Ipv4Address
  | HandleRouteRequestTimeout_event Ipv4Address
  | CleanupRoutingTable_event
  | SendRoutingUpdate_event
  | BroadcastRouteAdvertisement_event

datatype action =
    SendTo "header list Packet" Ipv4Address
  | Schedule Time event
  | LogWrongPacketType byte
  | LogUnknownPacketType byte

text \<open>
  What a handler reads from its surroundings: \<^verbatim>\<open>Simulator::Now()\<close>, the local address
  \<^verbatim>\<open>m_ipv4->GetAddress(1, 0).GetLocal()\<close>, the raw draw behind \<^verbatim>\<open>m_random\<close>, the
  value of a \<^verbatim>\<open>double\<close> given by its bit pattern, and the interfaces of \<^verbatim>\<open>m_ipv4\<close>:
  for each index below \<^verbatim>\<open>GetNInterfaces()\<close> the address \<^verbatim>\<open>GetAddress(i, 0).GetLocal()\<close>,
  or \<open>None\<close> when \<^verbatim>\<open>GetNAddresses(i)\<close> is 0.
\<close>

record env =
  now :: Time
  localAddress :: Ipv4Address
  draw :: nat
  dbl :: "64 word \<Rightarrow> real"
  interfaces :: "Ipv4Address option list"

text \<open>
  The members of \<^verbatim>\<open>FrtaRoutingProtocol\<close> that the embedded functions use. The socket, the
  unused \<^verbatim>\<open>m_state\<close> and the path search with its \<^verbatim>\<open>m_cachedPaths\<close> are left out.
\<close>

record FrtaRoutingProtocol =
  m_updateInterval :: Time
  m_running :: bool
  m_pendingRequests :: "Ipv4Address set"
  m_routeRequestTime :: "Ipv4Address \<rightharpoonup> Time"
  m_routingTable :: "Ipv4Address \<rightharpoonup> Ipv4Route"
  m_trustValues :: "Ipv4Address \<rightharpoonup> real"
  m_packetCounts :: "Ipv4Address \<rightharpoonup> 32 word"
  m_routeCache :: "Ipv4Address \<rightharpoonup> RouteEntry"
  m_collisionDetector :: FrtaCollisionDetector
  m_pathTrustValues :: "Ipv4Address list \<rightharpoonup> real"

definition ROUTE_REQUEST_TIMEOUT :: Time where "ROUTE_REQUEST_TIMEOUT = Seconds 2"
definition ROUTE_CACHE_TIMEOUT :: Time where "ROUTE_CACHE_TIMEOUT = Seconds 30"
definition MAX_HOP_COUNT :: "32 word" where "MAX_HOP_COUNT = 10"

text \<open>The constructor \<^verbatim>\<open>FrtaRoutingProtocol::FrtaRoutingProtocol\<close>.\<close>

definition FrtaRoutingProtocol_new :: FrtaRoutingProtocol where
  "FrtaRoutingProtocol_new =
     \<lparr>m_updateInterval = Seconds 30, m_running = False, m_pendingRequests = {},
      m_routeRequestTime = Map.empty, m_routingTable = Map.empty, m_trustValues = Map.empty,
      m_packetCounts = Map.empty, m_routeCache = Map.empty,
      m_collisionDetector = FrtaCollisionDetector_new, m_pathTrustValues = Map.empty\<rparr>"


subsection \<open>Trust\<close>

definition UpdateTrustValue ::
  "Ipv4Address \<Rightarrow> real \<Rightarrow> FrtaRoutingProtocol \<Rightarrow> FrtaRoutingProtocol" where
  "UpdateTrustValue node t st =
     (let currentTrust = (case m_trustValues st node of Some v \<Rightarrow> v | None \<Rightarrow> 0.5);
          alpha = (0.7 :: real);
          newTrust = (alpha * t) + ((1 - alpha) * currentTrust)
      in st\<lparr>m_trustValues := (m_trustValues st)(node \<mapsto> max 0.1 (min 1.0 newTrust))\<rparr>)"

definition CalculatePathTrust ::
  "Ipv4Address list \<Rightarrow> FrtaRoutingProtocol \<Rightarrow> real \<times> FrtaRoutingProtocol" where
  "CalculatePathTrust path st =
     (if path = [] then (0.0, st)
      else case m_pathTrustValues st path of
        Some cached \<Rightarrow> (cached, st)
      | None \<Rightarrow>
          (let minTrust = foldl (\<lambda>minTrust node.
                                   case m_trustValues st node of
                                     Some v \<Rightarrow> min minTrust v
                                   | None \<Rightarrow> min minTrust 0.5) 1.0 path
           in (minTrust, st\<lparr>m_pathTrustValues := (m_pathTrustValues st)(path \<mapsto> minTrust)\<rparr>)))"



text \<open>
  The minimum member trust in the words of the specification: the least of the current trust
  values of the nodes of a non-empty path, an unknown node counting 0.5.
\<close>

definition spec_path_trust :: "(Ipv4Address \<rightharpoonup> real) \<Rightarrow> Ipv4Address list \<Rightarrow> real" where
  "spec_path_trust tv path =
     (if path = [] then 0
      else Min ((\<lambda>node. case tv node of Some v \<Rightarrow> v | None \<Rightarrow> 0.5) ` set path))"

subsection \<open>Route discovery\<close>

definition SendRouteRequest ::
  "env \<Rightarrow> Ipv4Address \<Rightarrow> FrtaRoutingProtocol \<Rightarrow> FrtaRoutingProtocol \<times> action list" where
  "SendRouteRequest env destination st =
     (let reqHeader = \<lparr>req_destination = destination, req_source = localAddress env,
                       req_hopCount = 0\<rparr>;
          packet = AddHeader (RouteRequest reqHeader) Create_Packet;
          frtaHeader = \<lparr>m_type = FRTA_ROUTE_REQUEST\<rparr>;
          packet = AddHeader (Frta frtaHeader) packet
      in (st\<lparr>m_pendingRequests := insert destination (m_pendingRequests st),
              m_routeRequestTime := (m_routeRequestTime st)(destination \<mapsto> now env)\<rparr>,
          [SendTo packet GetBroadcast,
           Schedule ROUTE_REQUEST_TIMEOUT (HandleRouteRequestTimeout_event destination)]))"

definition SendRouteReply ::
  "env \<Rightarrow> Ipv4Address \<Rightarrow> Ipv4Address \<Rightarrow> FrtaRoutingProtocol \<Rightarrow>
   FrtaRoutingProtocol \<times> action list" where
  "SendRouteReply env destination nxt st =
     (let frtaHeader = \<lparr>m_type = FRTA_ROUTE_REPLY\<rparr>;
          packet = AddHeader (Frta frtaHeader) Create_Packet;
          (t, tv) = subscript (m_trustValues st) nxt 0.0;
          replyHeader = \<lparr>rep_destination = destination, rep_nextHop = nxt, rep_trust = t\<rparr>;
          packet = AddHeader (RouteReply replyHeader) packet;
          delay = MicroSeconds (GetInteger 0 1000 (draw env))
      in (st\<lparr>m_trustValues := tv\<rparr>, [Schedule delay (SendDelayedReply_event packet nxt)]))"


definition ForwardRouteRequest :: "header list Packet \<Rightarrow> action list" where
  "ForwardRouteRequest packet = [SendTo packet GetBroadcast]"

definition ProcessRouteRequest ::
  "env \<Rightarrow> byte list Packet \<Rightarrow> Ipv4Address \<Rightarrow> FrtaRoutingProtocol \<Rightarrow>
   (FrtaRoutingProtocol \<times> action list) option" where
  "ProcessRouteRequest env packet sender st = do {
     (frtaHeader, body) \<leftarrow> RemoveHeader FrtaHeader_Deserialize (buffer packet);
     if GetMessageType frtaHeader \<noteq> FRTA_ROUTE_REQUEST
     then Some (st, [LogWrongPacketType (GetMessageType frtaHeader)])
     else do {
       (reqHeader, _) \<leftarrow> RemoveHeader RouteRequestHeader_Deserialize body;
       let destination = req_destination reqHeader;
           source = req_source reqHeader;
           hops = req_hopCount reqHeader
       in
       if source = localAddress env then Some (st, [])
       else
         let sourceEntry = \<lparr>nextHop = sender, trust = 0.7, lastUpdate = now env,
                            hopCount = hops + 1\<rparr>;
             st = st\<lparr>m_routeCache := (m_routeCache st)(source \<mapsto> sourceEntry)\<rparr>;
             st = UpdateTrustValue sender 0.7 st
         in
         if destination = localAddress env then Some (SendRouteReply env source sender st)
         else if (case m_routeCache st destination of
                    Some e \<Rightarrow> now env - lastUpdate e < ROUTE_CACHE_TIMEOUT
                  | None \<Rightarrow> False)
         then Some (SendRouteReply env source sender st)
         else if hops < MAX_HOP_COUNT
         then
           let delay = MicroSeconds (GetInteger 0 1000 (draw env));
               newFrtaHeader = \<lparr>m_type = FRTA_ROUTE_REQUEST\<rparr>;
               forwardPacket = AddHeader (Frta newFrtaHeader) Create_Packet;
               reqHeader = reqHeader\<lparr>req_hopCount := hops + 1\<rparr>;
               forwardPacket = AddHeader (RouteRequest reqHeader) forwardPacket
           in Some (st, [Schedule delay (ForwardRouteRequest_event forwardPacket)])
         else Some (st, [])
     }
   }"

definition ProcessRouteReply ::
  "env \<Rightarrow> byte list Packet \<Rightarrow> Ipv4Address \<Rightarrow> FrtaRoutingProtocol \<Rightarrow>
   (FrtaRoutingProtocol \<times> action list) option" where
  "ProcessRouteReply env packet sender st = do {
     (frtaHeader, body) \<leftarrow> RemoveHeader FrtaHeader_Deserialize (buffer packet);
     (replyHeader, _) \<leftarrow> RemoveHeader RouteReplyHeader_Deserialize body;
     let destination = rep_destination replyHeader;
         nxt = rep_nextHop replyHeader;
         t = dbl env (rep_trust replyHeader);
         st = UpdateTrustValue sender t st;
         st = UpdateTrustValue nxt t st;
         entry = \<lparr>nextHop = sender, trust = t, lastUpdate = now env, hopCount = 1\<rparr>;
         st = st\<lparr>m_routeCache := (m_routeCache st)(destination \<mapsto> entry)\<rparr>;
         (st, acts) =
           (if destination \<noteq> localAddress env
            then (case m_routeCache st destination of
                    Some e \<Rightarrow> if nextHop e \<noteq> destination
                              then SendRouteReply env destination (nextHop e) st
                              else (st, [])
                  | None \<Rightarrow> (st, []))
            else (st, []))
     in Some (st\<lparr>m_pendingRequests := m_pendingRequests st - {destination}\<rparr>, acts)
   }"


subsection \<open>Advertisement and maintenance\<close>

definition ProcessRouteAdvertisement ::
  "env \<Rightarrow> byte list Packet \<Rightarrow> Ipv4Address \<Rightarrow> FrtaRoutingProtocol \<Rightarrow>
   (FrtaRoutingProtocol \<times> action list) option" where
  "ProcessRouteAdvertisement env packet sender st = do {
     (frtaHeader, body) \<leftarrow> RemoveHeader FrtaHeader_Deserialize (buffer packet);
     (advHeader, _) \<leftarrow> RemoveHeader RouteAdvertisementHeader_Deserialize body;
     let destination = adv_destination advHeader;
         nxt = adv_nextHop advHeader;
         t = dbl env (adv_trust advHeader);
         hops = adv_hopCount advHeader
     in
     if (case m_routeCache st destination of
           None \<Rightarrow> True
         | Some e \<Rightarrow> t > trust e \<and> hops < hopCount e)
     then
       let entry = \<lparr>nextHop = nxt, trust = t, lastUpdate = now env, hopCount = hops + 1\<rparr>
       in Some (st\<lparr>m_routeCache := (m_routeCache st)(destination \<mapsto> entry)\<rparr>, [])
     else Some (st, [])
   }"


subsection \<open>Routing interface\<close>

text \<open>
  \<^verbatim>\<open>RouteOutput\<close> reads the destination of the IP header and has \<^verbatim>\<open>sockerr\<close> as an
  in-out argument; it returns the route, or \<open>None\<close> for \<^verbatim>\<open>nullptr\<close>.
\<close>

definition RouteOutput ::
  "env \<Rightarrow> Ipv4Address \<Rightarrow> SocketErrno \<Rightarrow> FrtaRoutingProtocol \<Rightarrow>
   Ipv4Route option \<times> SocketErrno \<times> FrtaRoutingProtocol \<times> action list" where
  "RouteOutput env destination sockerr st =
     (if IsBroadcast destination
      then (Some \<lparr>route_destination = destination, route_gateway = GetZero,
                  route_source = localAddress env\<rparr>, sockerr, st, [])
      else case (case m_routeCache st destination of
                   Some e \<Rightarrow> if now env - lastUpdate e < ROUTE_CACHE_TIMEOUT then Some e else None
                 | None \<Rightarrow> None) of
        Some e \<Rightarrow>
          (Some \<lparr>route_destination = destination, route_gateway = nextHop e,
                 route_source = localAddress env\<rparr>, ERROR_NOTERROR, st, [])
      | None \<Rightarrow>
          (let (st, acts) = (if destination \<notin> m_pendingRequests st
                             then SendRouteRequest env destination st
                             else (st, []))
           in (None, ERROR_NOROUTETOHOST, st, acts)))"

subsection \<open>Reception\<close>

text \<open>
  The body of the \<^verbatim>\<open>while\<close> loop of \<^verbatim>\<open>ReceiveRoutingPacket\<close>, run for each packet that
  the socket delivers.
\<close>

definition ReceiveRoutingPacket ::
  "env \<Rightarrow> byte list Packet \<Rightarrow> Ipv4Address \<Rightarrow> FrtaRoutingProtocol \<Rightarrow>
   (FrtaRoutingProtocol \<times> action list) option" where
  "ReceiveRoutingPacket env packet sender st = do {
     frtaHeader \<leftarrow> PeekHeader FrtaHeader_Deserialize (buffer packet);
     let ty = GetMessageType frtaHeader in
     if ty = FRTA_ROUTE_REQUEST then ProcessRouteRequest env packet sender st
     else if ty = FRTA_ROUTE_REPLY then ProcessRouteReply env packet sender st
     else if ty = FRTA_ROUTE_ADVERTISEMENT then ProcessRouteAdvertisement env packet sender st
     else if ty = FRTA_TRUST_UPDATE
     then let t = (case trustTag packet of Some tagged \<Rightarrow> tagged | None \<Rightarrow> 0.5)
          in Some (UpdateTrustValue sender t st, [])
     else Some (st, [LogUnknownPacketType ty])
   }"

subsection \<open>Lifecycle and periodic updates\<close>












subsection \<open>Runs of one node\<close>





text \<open>
  The surroundings of an example node with one interface besides the loopback, where every
  bit pattern reads as the \<^verbatim>\<open>double\<close> 0.
\<close>

definition env_at :: "Time \<Rightarrow> Ipv4Address \<Rightarrow> nat \<Rightarrow> env" where
  "env_at t a raw =
     \<lparr>now = t, localAddress = a, draw = raw, dbl = (\<lambda>bits. 0),
      interfaces = [Some 0x7F000001, Some a]\<rparr>"


text \<open>
  Every stored trust value lies between \<open>lo\<close> and 1, and every address of the routing table
  has a stored trust value.
\<close>

definition trust_in :: "real \<Rightarrow> FrtaRoutingProtocol \<Rightarrow> bool" where
  "trust_in lo st \<longleftrightarrow>
     (\<forall>node v. m_trustValues st node = Some v \<longrightarrow> lo \<le> v \<and> v \<le> 1) \<and>
     dom (m_routingTable st) \<subseteq> dom (m_trustValues st)"

section \<open>Properties of the codec\<close>

lemma ReadNtohU32_WriteHtonU32: "ReadNtohU32 (WriteHtonU32 d @ rest) = Some (d, rest)"
proof -
  have "push_bit 24 (ucast (ucast (drop_bit 24 d) :: byte)) OR
        push_bit 16 (ucast (ucast (drop_bit 16 d) :: byte)) OR
        push_bit 8 (ucast (ucast (drop_bit 8 d) :: byte)) OR ucast (ucast d :: byte) = d"
    (is "?l = d")
  proof (rule bit_word_eqI)
    fix n :: nat
    assume "n < LENGTH(32)"
    then consider "n < 8" | "8 \<le> n" "n < 16" | "16 \<le> n" "n < 24" | "24 \<le> n" "n < 32"
      by fastforce
    then show "bit ?l n = bit d n"
      by cases (auto simp: bit_simps)
  qed
  then show ?thesis
    by (simp add: WriteHtonU32_def)
qed

lemma ReadNtohU64_WriteHtonU64: "ReadNtohU64 (WriteHtonU64 d @ rest) = Some (d, rest)"
proof -
  have "push_bit 56 (ucast (ucast (drop_bit 56 d) :: byte)) OR
        push_bit 48 (ucast (ucast (drop_bit 48 d) :: byte)) OR
        push_bit 40 (ucast (ucast (drop_bit 40 d) :: byte)) OR
        push_bit 32 (ucast (ucast (drop_bit 32 d) :: byte)) OR
        push_bit 24 (ucast (ucast (drop_bit 24 d) :: byte)) OR
        push_bit 16 (ucast (ucast (drop_bit 16 d) :: byte)) OR
        push_bit 8 (ucast (ucast (drop_bit 8 d) :: byte)) OR ucast (ucast d :: byte) = d"
    (is "?l = d")
  proof (rule bit_word_eqI)
    fix n :: nat
    assume "n < LENGTH(64)"
    then consider "n < 8" | "8 \<le> n" "n < 16" | "16 \<le> n" "n < 24" | "24 \<le> n" "n < 32"
      | "32 \<le> n" "n < 40" | "40 \<le> n" "n < 48" | "48 \<le> n" "n < 56" | "56 \<le> n" "n < 64"
      by fastforce
    then show "bit ?l n = bit d n"
      by cases (auto simp: bit_simps)
  qed
  then show ?thesis
    by (simp add: WriteHtonU64_def)
qed

lemma length_WriteHtonU32: "length (WriteHtonU32 d) = 4"
  by (simp add: WriteHtonU32_def)

lemma length_WriteHtonU64: "length (WriteHtonU64 d) = 8"
  by (simp add: WriteHtonU64_def)

lemma FrtaHeader_roundtrip:
  "1 \<le> m_type h \<Longrightarrow> m_type h \<le> 4 \<Longrightarrow>
   FrtaHeader_Deserialize (FrtaHeader_Serialize h @ rest) = Some (h, 1)"
  by (simp add: FrtaHeader_Deserialize_def FrtaHeader_Serialize_def WriteU8_def
      FrtaHeader_GetSerializedSize_def)

lemma RouteRequestHeader_roundtrip:
  "RouteRequestHeader_Deserialize (RouteRequestHeader_Serialize h @ rest) = Some (h, 20)"
  by (simp add: RouteRequestHeader_Deserialize_def RouteRequestHeader_Serialize_def
      ReadNtohU32_WriteHtonU32 RouteRequestHeader_GetSerializedSize_def)

lemma RouteReplyHeader_roundtrip:
  "RouteReplyHeader_Deserialize (RouteReplyHeader_Serialize h @ rest) = Some (h, 24)"
  by (simp add: RouteReplyHeader_Deserialize_def RouteReplyHeader_Serialize_def
      ReadNtohU32_WriteHtonU32 ReadNtohU64_WriteHtonU64 RouteReplyHeader_GetSerializedSize_def)

lemma RouteAdvertisementHeader_roundtrip:
  "RouteAdvertisementHeader_Deserialize (RouteAdvertisementHeader_Serialize h @ rest) =
   Some (h, 28)"
  by (simp add: RouteAdvertisementHeader_Deserialize_def RouteAdvertisementHeader_Serialize_def
      ReadNtohU32_WriteHtonU32 ReadNtohU64_WriteHtonU64
      RouteAdvertisementHeader_GetSerializedSize_def)

section \<open>Claims about the codec\<close>

text \<open>
  Claim C5. The claim reads: the serialised body of a REQUEST is 12 bytes, of a REPLY 16 bytes,
  of an ADVERTISEMENT 20 bytes, and the size that \<^verbatim>\<open>GetSerializedSize\<close> reports and
  reserves equals the number of bytes the body occupies. On the code the two halves disagree:
  \<^verbatim>\<open>Serialize\<close> writes 12, 16 and 20 bytes, while \<^verbatim>\<open>GetSerializedSize\<close> counts each
  four-byte address as eight bytes and reports 20, 24 and 28, for every header value.
\<close>

theorem serialized_size_differs_from_bytes_written:
  "length (RouteRequestHeader_Serialize q) = 12 \<and>
   RouteRequestHeader_GetSerializedSize q = 20 \<and>
   length (RouteReplyHeader_Serialize p) = 16 \<and>
   RouteReplyHeader_GetSerializedSize p = 24 \<and>
   length (RouteAdvertisementHeader_Serialize a) = 20 \<and>
   RouteAdvertisementHeader_GetSerializedSize a = 28"
  by (simp add: RouteRequestHeader_Serialize_def RouteReplyHeader_Serialize_def
      RouteAdvertisementHeader_Serialize_def length_WriteHtonU32 length_WriteHtonU64
      RouteRequestHeader_GetSerializedSize_def RouteReplyHeader_GetSerializedSize_def
      RouteAdvertisementHeader_GetSerializedSize_def)

text \<open>
  Claim C6. For every message variant and every value of its fields, deserialising the bytes
  that serialising the value produced yields the value again: for an \<^verbatim>\<open>FrtaHeader\<close> whose
  type is one of 1 to 4, and for every \<^verbatim>\<open>RouteRequestHeader\<close>, \<^verbatim>\<open>RouteReplyHeader\<close> and
  \<^verbatim>\<open>RouteAdvertisementHeader\<close>, the trust field by its bit pattern. Bytes that follow the
  header in the buffer do not matter.
\<close>

theorem codec_roundtrip:
  "(1 \<le> m_type f \<and> m_type f \<le> 4 \<longrightarrow>
      map_option fst (FrtaHeader_Deserialize (FrtaHeader_Serialize f @ rest)) = Some f) \<and>
   map_option fst (RouteRequestHeader_Deserialize (RouteRequestHeader_Serialize q @ rest))
     = Some q \<and>
   map_option fst (RouteReplyHeader_Deserialize (RouteReplyHeader_Serialize p @ rest))
     = Some p \<and>
   map_option fst
     (RouteAdvertisementHeader_Deserialize (RouteAdvertisementHeader_Serialize a @ rest))
     = Some a"
  by (simp add: FrtaHeader_roundtrip RouteRequestHeader_roundtrip RouteReplyHeader_roundtrip
      RouteAdvertisementHeader_roundtrip)

theorem codec_roundtrip_witness:
  "1 \<le> m_type \<lparr>m_type = 2\<rparr> \<and> m_type \<lparr>m_type = 2\<rparr> \<le> 4 \<and>
   map_option fst (FrtaHeader_Deserialize (FrtaHeader_Serialize \<lparr>m_type = 2\<rparr> @ []))
     = Some \<lparr>m_type = 2\<rparr>"
  using codec_roundtrip [of "\<lparr>m_type = 2\<rparr>" "[]"] by simp

section \<open>Claims about the collision detector\<close>

lemma cache_agrees_after_calls:
  "(m_cacheValid d \<longrightarrow>
      m_collisionProbabilityCache d =
        spec_global_collision_probability (unat (m_successCount d)) (unat (m_totalCount d))) \<Longrightarrow>
   (let d' = detector_calls cs d
    in m_cacheValid d' \<longrightarrow>
       m_collisionProbabilityCache d' =
         spec_global_collision_probability (unat (m_successCount d')) (unat (m_totalCount d')))"
proof (induction cs d rule: detector_calls.induct)
  case (1 d)
  then show ?case by simp
next
  case (2 now sender success cs d)
  then show ?case
    by (simp add: UpdateTransmissionStats_def Let_def split: prod.splits)
next
  case (3 cs d)
  then show ?case
    by (simp add: GetCollisionProbability_def Let_def spec_global_collision_probability_def
        unat_eq_0)
qed

lemma detector_calls_counts:
  "m_totalCount (detector_calls cs d) = m_totalCount d + of_nat (updates cs) \<and>
   m_successCount (detector_calls cs d) = m_successCount d + of_nat (successes cs)"
proof (induction cs d rule: detector_calls.induct)
  case (1 d)
  then show ?case by simp
next
  case (2 now sender success cs d)
  then show ?case
    by (simp add: UpdateTransmissionStats_def Let_def split: prod.splits)
next
  case (3 cs d)
  then show ?case
    by (simp add: GetCollisionProbability_def Let_def)
qed

lemma GetCollisionProbability_agrees:
  "(m_cacheValid d \<longrightarrow>
      m_collisionProbabilityCache d =
        spec_global_collision_probability (unat (m_successCount d)) (unat (m_totalCount d))) \<Longrightarrow>
   fst (GetCollisionProbability d) =
     spec_global_collision_probability (unat (m_successCount d)) (unat (m_totalCount d))"
  by (simp add: GetCollisionProbability_def Let_def spec_global_collision_probability_def
      unat_eq_0)

text \<open>
  Claim C9. After every sequence of \<^verbatim>\<open>UpdateTransmissionStats\<close> calls on a new detector,
  with queries interleaved at will, \<^verbatim>\<open>GetCollisionProbability\<close> returns 0 when the total
  count is 0 and one minus the success count over the total count otherwise; the value it
  returns through its cache is the value of the specification's formula on the counters, so
  the cache is never stale. The counters are the numbers of updates and of successful updates,
  as 32-bit values.
\<close>

theorem collision_probability_is_formula:
  "m_totalCount (detector_calls cs FrtaCollisionDetector_new) = of_nat (updates cs) \<and>
   m_successCount (detector_calls cs FrtaCollisionDetector_new) = of_nat (successes cs) \<and>
   fst (GetCollisionProbability (detector_calls cs FrtaCollisionDetector_new)) =
     (if m_totalCount (detector_calls cs FrtaCollisionDetector_new) = 0 then 0
      else 1 - real (unat (m_successCount (detector_calls cs FrtaCollisionDetector_new))) /
               real (unat (m_totalCount (detector_calls cs FrtaCollisionDetector_new)))) \<and>
   fst (GetCollisionProbability (detector_calls cs FrtaCollisionDetector_new)) =
     spec_global_collision_probability
       (unat (m_successCount (detector_calls cs FrtaCollisionDetector_new)))
       (unat (m_totalCount (detector_calls cs FrtaCollisionDetector_new)))"
proof -
  let ?d = "detector_calls cs FrtaCollisionDetector_new"
  have inv: "m_cacheValid ?d \<longrightarrow>
      m_collisionProbabilityCache ?d =
        spec_global_collision_probability (unat (m_successCount ?d)) (unat (m_totalCount ?d))"
    using cache_agrees_after_calls [of FrtaCollisionDetector_new cs]
    by (simp add: FrtaCollisionDetector_new_def Let_def)
  have cnt: "m_totalCount ?d = of_nat (updates cs) \<and> m_successCount ?d = of_nat (successes cs)"
    using detector_calls_counts [of cs FrtaCollisionDetector_new]
    by (simp add: FrtaCollisionDetector_new_def)
  show ?thesis
    using GetCollisionProbability_agrees [OF inv] cnt
    by (simp add: spec_global_collision_probability_def unat_eq_0)
qed

theorem collision_probability_is_formula_witness:
  "fst (GetCollisionProbability
         (detector_calls [Update 5 1 True, Query, Update 6 1 False, Update 7 2 False]
            FrtaCollisionDetector_new)) = 2 / 3"
  using collision_probability_is_formula
    [of "[Update 5 1 True, Query, Update 6 1 False, Update 7 2 False]"]
  by simp

section \<open>Properties of the handlers\<close>

lemma RemoveHeader_FrtaHeader:
  "RemoveHeader FrtaHeader_Deserialize (tag # body) =
     Some (if 1 \<le> tag \<and> tag \<le> 4 then \<lparr>m_type = tag\<rparr> else \<lparr>m_type = FRTA_ROUTE_REQUEST\<rparr>,
           body)"
  by (simp add: RemoveHeader_def FrtaHeader_Deserialize_def FrtaHeader_GetSerializedSize_def)

lemma PeekHeader_FrtaHeader:
  "PeekHeader FrtaHeader_Deserialize (tag # body) =
     Some (if 1 \<le> tag \<and> tag \<le> 4 then \<lparr>m_type = tag\<rparr> else \<lparr>m_type = FRTA_ROUTE_REQUEST\<rparr>)"
  by (simp add: PeekHeader_def FrtaHeader_Deserialize_def FrtaHeader_GetSerializedSize_def)

lemma RemoveHeader_RouteRequestHeader:
  "RemoveHeader RouteRequestHeader_Deserialize (RouteRequestHeader_Serialize msg @ rest) =
     Some (msg, drop 20 (RouteRequestHeader_Serialize msg @ rest))"
  by (simp add: RemoveHeader_def RouteRequestHeader_roundtrip)

lemma RemoveHeader_RouteReplyHeader:
  "RemoveHeader RouteReplyHeader_Deserialize (RouteReplyHeader_Serialize msg @ rest) =
     Some (msg, drop 24 (RouteReplyHeader_Serialize msg @ rest))"
  by (simp add: RemoveHeader_def RouteReplyHeader_roundtrip)

lemma RemoveHeader_RouteAdvertisementHeader:
  "RemoveHeader RouteAdvertisementHeader_Deserialize
     (RouteAdvertisementHeader_Serialize msg @ rest) =
     Some (msg, drop 28 (RouteAdvertisementHeader_Serialize msg @ rest))"
  by (simp add: RemoveHeader_def RouteAdvertisementHeader_roundtrip)

lemma UpdateTrustValue_others:
  "m_routeCache (UpdateTrustValue n t st) = m_routeCache st"
  "m_pendingRequests (UpdateTrustValue n t st) = m_pendingRequests st"
  by (simp_all add: UpdateTrustValue_def Let_def)

lemma SendRouteReply_others:
  "m_routeCache (fst (SendRouteReply env d n st)) = m_routeCache st"
  "m_pendingRequests (fst (SendRouteReply env d n st)) = m_pendingRequests st"
  by (simp_all add: SendRouteReply_def Let_def case_prod_beta)

section \<open>Claims about the protocol\<close>

text \<open>
  Claim C2. \<^verbatim>\<open>ProcessRouteAdvertisement\<close>, on a packet that carries the advertisement
  \<open>msg\<close> behind its type byte, replaces the route cache entry of \<open>msg\<close>'s destination if and
  only if the cache has no entry for it, or \<open>msg\<close>'s trust is strictly greater than the
  entry's and \<open>msg\<close>'s hop count strictly less than the entry's. The entry it stores has
  \<open>msg\<close>'s next hop and trust, \<open>msg\<close>'s hop count plus one (in 32-bit arithmetic) and the
  current time. Otherwise the state is unchanged. Nothing is sent either way.
\<close>

theorem advertisement_replaces_iff_better:
  "ProcessRouteAdvertisement env
     \<lparr>buffer = tag # RouteAdvertisementHeader_Serialize msg @ rest, trustTag = tg\<rparr> sender st =
   Some (if (case m_routeCache st (adv_destination msg) of
               None \<Rightarrow> True
             | Some existing \<Rightarrow> dbl env (adv_trust msg) > trust existing \<and>
                                adv_hopCount msg < hopCount existing)
         then st\<lparr>m_routeCache := (m_routeCache st)(adv_destination msg \<mapsto>
                   \<lparr>nextHop = adv_nextHop msg, trust = dbl env (adv_trust msg),
                    lastUpdate = now env, hopCount = adv_hopCount msg + 1\<rparr>)\<rparr>
         else st, [])"
  by (simp add: ProcessRouteAdvertisement_def RemoveHeader_FrtaHeader
      RemoveHeader_RouteAdvertisementHeader Let_def)

theorem advertisement_replaces_iff_better_witness:
  "ProcessRouteAdvertisement ((env_at 0 2 0)\<lparr>dbl := \<lambda>bits. 0.7\<rparr>)
     \<lparr>buffer = 3 # RouteAdvertisementHeader_Serialize
                      \<lparr>adv_destination = 9, adv_nextHop = 6, adv_trust = 0, adv_hopCount = 1\<rparr> @ [],
      trustTag = None\<rparr> 6
     (FrtaRoutingProtocol_new\<lparr>m_routeCache :=
        [9 \<mapsto> \<lparr>nextHop = 5, trust = 0.6, lastUpdate = 0, hopCount = 3\<rparr>]\<rparr>) =
   Some (FrtaRoutingProtocol_new\<lparr>m_routeCache :=
           [9 \<mapsto> \<lparr>nextHop = 6, trust = 0.7, lastUpdate = 0, hopCount = 2\<rparr>]\<rparr>, []) \<and>
   ProcessRouteAdvertisement ((env_at 0 2 0)\<lparr>dbl := \<lambda>bits. 0.7\<rparr>)
     \<lparr>buffer = 3 # RouteAdvertisementHeader_Serialize
                      \<lparr>adv_destination = 9, adv_nextHop = 6, adv_trust = 0, adv_hopCount = 3\<rparr> @ [],
      trustTag = None\<rparr> 6
     (FrtaRoutingProtocol_new\<lparr>m_routeCache :=
        [9 \<mapsto> \<lparr>nextHop = 5, trust = 0.6, lastUpdate = 0, hopCount = 3\<rparr>]\<rparr>) =
   Some (FrtaRoutingProtocol_new\<lparr>m_routeCache :=
           [9 \<mapsto> \<lparr>nextHop = 5, trust = 0.6, lastUpdate = 0, hopCount = 3\<rparr>]\<rparr>, [])"
  using
    advertisement_replaces_iff_better
      [of "(env_at 0 2 0)\<lparr>dbl := \<lambda>bits. 0.7\<rparr>" 3
        "\<lparr>adv_destination = 9, adv_nextHop = 6, adv_trust = 0, adv_hopCount = 1\<rparr>" "[]" None 6
        "FrtaRoutingProtocol_new\<lparr>m_routeCache :=
           [9 \<mapsto> \<lparr>nextHop = 5, trust = 0.6, lastUpdate = 0, hopCount = 3\<rparr>]\<rparr>"]
    advertisement_replaces_iff_better
      [of "(env_at 0 2 0)\<lparr>dbl := \<lambda>bits. 0.7\<rparr>" 3
        "\<lparr>adv_destination = 9, adv_nextHop = 6, adv_trust = 0, adv_hopCount = 3\<rparr>" "[]" None 6
        "FrtaRoutingProtocol_new\<lparr>m_routeCache :=
           [9 \<mapsto> \<lparr>nextHop = 5, trust = 0.6, lastUpdate = 0, hopCount = 3\<rparr>]\<rparr>"]
  by (simp add: env_at_def FrtaRoutingProtocol_new_def)

text \<open>
  Claim C4. \<^verbatim>\<open>ProcessRouteReply\<close>, on a packet that carries the reply \<open>msg\<close> behind its
  type byte, completes, and afterwards the route cache maps \<open>msg\<close>'s destination to the entry
  with the sender as next hop, \<open>msg\<close>'s trust, hop count 1 and the current time, and the
  destination is not in the set of pending requests.
\<close>

theorem route_reply_installs_route:
  "\<exists>st' acts.
     ProcessRouteReply env \<lparr>buffer = tag # RouteReplyHeader_Serialize msg @ rest, trustTag = tg\<rparr>
       sender st = Some (st', acts) \<and>
     m_routeCache st' (rep_destination msg) =
       Some \<lparr>nextHop = sender, trust = dbl env (rep_trust msg), lastUpdate = now env,
             hopCount = 1\<rparr> \<and>
     rep_destination msg \<notin> m_pendingRequests st'"
  by (simp add: ProcessRouteReply_def RemoveHeader_FrtaHeader RemoveHeader_RouteReplyHeader
      Let_def case_prod_beta UpdateTrustValue_others SendRouteReply_others)

theorem route_reply_installs_route_witness:
  "\<exists>st' acts.
     ProcessRouteReply ((env_at 1000000 0x0A010101 0)\<lparr>dbl := \<lambda>bits. 0.9\<rparr>)
       \<lparr>buffer = 2 # RouteReplyHeader_Serialize
                        \<lparr>rep_destination = 0x0A010103, rep_nextHop = 0x0A010103, rep_trust = 0\<rparr>
                      @ [],
        trustTag = None\<rparr>
       0x0A010102 (FrtaRoutingProtocol_new\<lparr>m_pendingRequests := {0x0A010103}\<rparr>) =
       Some (st', acts) \<and>
     m_routeCache st' 0x0A010103 =
       Some \<lparr>nextHop = 0x0A010102, trust = 0.9, lastUpdate = 1000000, hopCount = 1\<rparr> \<and>
     0x0A010103 \<notin> m_pendingRequests st'"
  using route_reply_installs_route
    [of "(env_at 1000000 0x0A010101 0)\<lparr>dbl := \<lambda>bits. 0.9\<rparr>" 2
      "\<lparr>rep_destination = 0x0A010103, rep_nextHop = 0x0A010103, rep_trust = 0\<rparr>" "[]" None
      "0x0A010102" "FrtaRoutingProtocol_new\<lparr>m_pendingRequests := {0x0A010103}\<rparr>"]
  by (simp add: env_at_def)

lemma SendRouteReply_actions:
  "snd (SendRouteReply env d n st) =
     [Schedule (MicroSeconds (GetInteger 0 1000 (draw env)))
        (SendDelayedReply_event
           \<lparr>buffer = [RouteReply \<lparr>rep_destination = d, rep_nextHop = n,
                                   rep_trust = fst (subscript (m_trustValues st) n 0)\<rparr>,
                       Frta \<lparr>m_type = FRTA_ROUTE_REPLY\<rparr>],
            trustTag = None\<rparr> n)]"
  by (simp add: SendRouteReply_def Let_def case_prod_beta AddHeader_def Create_Packet_def)

lemma no_log_SendRouteReply:
  "SendRouteReply env d n st = (st', acts) \<Longrightarrow>
   LogUnknownPacketType t \<notin> set acts \<and> LogWrongPacketType t \<notin> set acts"
  using SendRouteReply_actions [of env d n st] by auto

lemma no_log_ProcessRouteRequest:
  "ProcessRouteRequest env packet sender st = Some (st', acts) \<Longrightarrow>
   PeekHeader FrtaHeader_Deserialize (buffer packet) = Some h \<Longrightarrow>
   GetMessageType h = FRTA_ROUTE_REQUEST \<Longrightarrow>
   LogUnknownPacketType t \<notin> set acts \<and> LogWrongPacketType t \<notin> set acts"
  apply (cases "buffer packet")
   apply (simp add: PeekHeader_def FrtaHeader_Deserialize_def)
  apply (simp add: ProcessRouteRequest_def RemoveHeader_FrtaHeader PeekHeader_FrtaHeader)
  apply (auto simp: Let_def Option.bind_eq_Some_conv split: if_splits dest: no_log_SendRouteReply)
  done

lemma no_log_ProcessRouteReply:
  "ProcessRouteReply env packet sender st = Some (st', acts) \<Longrightarrow>
   LogUnknownPacketType t \<notin> set acts \<and> LogWrongPacketType t \<notin> set acts"
  apply (simp add: ProcessRouteReply_def Let_def case_prod_beta Option.bind_eq_Some_conv)
  apply (auto split: if_splits simp: SendRouteReply_actions)
  done

lemma no_log_ProcessRouteAdvertisement:
  "ProcessRouteAdvertisement env packet sender st = Some (st', acts) \<Longrightarrow>
   LogUnknownPacketType t \<notin> set acts \<and> LogWrongPacketType t \<notin> set acts"
  apply (simp add: ProcessRouteAdvertisement_def Let_def case_prod_beta Option.bind_eq_Some_conv)
  apply (auto split: if_splits)
  done

lemma byte_1_to_4: "1 \<le> x \<Longrightarrow> x \<le> 4 \<Longrightarrow> x = 1 \<or> x = 2 \<or> x = 3 \<or> x = (4 :: byte)"
proof -
  assume a: "1 \<le> x" "x \<le> 4"
  then have "1 \<le> unat x" "unat x \<le> 4"
    by (simp_all add: word_le_nat_alt)
  then have "unat x = 1 \<or> unat x = 2 \<or> unat x = 3 \<or> unat x = 4"
    by arith
  then have "word_of_nat (unat x) = (1 :: byte) \<or> word_of_nat (unat x) = (2 :: byte) \<or>
             word_of_nat (unat x) = (3 :: byte) \<or> word_of_nat (unat x) = (4 :: byte)"
    by (elim disjE) (simp_all only: of_nat_numeral of_nat_1 simp_thms)
  then show ?thesis by simp
qed

lemma Deserialize_type:
  "FrtaHeader_Deserialize buf = Some (h, n) \<Longrightarrow> GetMessageType h \<in> {1, 2, 3, 4}"
  apply (cases buf)
   apply (simp add: FrtaHeader_Deserialize_def)
  apply (auto simp: FrtaHeader_Deserialize_def FRTA_ROUTE_REQUEST_def GetMessageType_def Let_def
      split: if_splits dest: byte_1_to_4)
  done

text \<open>
  Claim C10. Every \<^verbatim>\<open>FrtaHeader\<close> decoded from a buffer has a message type among 1, 2, 3
  and 4; a type byte outside 1 to 4 decodes to REQUEST (type 1) rather than failing; and so
  \<^verbatim>\<open>ReceiveRoutingPacket\<close> never takes the default branch of its dispatch, nor does the
  type check of \<^verbatim>\<open>ProcessRouteRequest\<close> ever reject a packet dispatched to it: neither
  log line about an unknown or wrong type is ever emitted, whatever the type byte.
\<close>

theorem received_type_always_known:
  "(FrtaHeader_Deserialize buf = Some (h, n) \<longrightarrow> GetMessageType h \<in> {1, 2, 3, 4}) \<and>
   (\<not> (1 \<le> tag \<and> tag \<le> 4) \<longrightarrow>
      FrtaHeader_Deserialize (tag # rest) = Some (\<lparr>m_type = FRTA_ROUTE_REQUEST\<rparr>, 1)) \<and>
   (ReceiveRoutingPacket env packet sender st = Some (st', acts) \<longrightarrow>
      LogUnknownPacketType t \<notin> set acts \<and> LogWrongPacketType t \<notin> set acts)"
proof -
  have dec: "GetMessageType h' \<in> {1, 2, 3, 4}" if "FrtaHeader_Deserialize buf' = Some (h', n')"
    for buf' h' n'
    using that by (rule Deserialize_type)
  have coerce: "FrtaHeader_Deserialize (tag # rest) = Some (\<lparr>m_type = FRTA_ROUTE_REQUEST\<rparr>, 1)"
    if "\<not> (1 \<le> tag \<and> tag \<le> 4)"
    using that by (auto simp: FrtaHeader_Deserialize_def FrtaHeader_GetSerializedSize_def)
  have nolog: "LogUnknownPacketType t \<notin> set acts \<and> LogWrongPacketType t \<notin> set acts"
    if r: "ReceiveRoutingPacket env packet sender st = Some (st', acts)"
  proof -
    from r obtain h where h: "PeekHeader FrtaHeader_Deserialize (buffer packet) = Some h"
      by (auto simp: ReceiveRoutingPacket_def Option.bind_eq_Some_conv)
    then obtain n where "FrtaHeader_Deserialize (buffer packet) = Some (h, n)"
      by (auto simp: PeekHeader_def Option.bind_eq_Some_conv)
    then have "GetMessageType h \<in> {1, 2, 3, 4}" by (rule dec)
    then consider "GetMessageType h = FRTA_ROUTE_REQUEST" | "GetMessageType h = FRTA_ROUTE_REPLY"
      | "GetMessageType h = FRTA_ROUTE_ADVERTISEMENT" | "GetMessageType h = FRTA_TRUST_UPDATE"
      by (auto simp: FRTA_ROUTE_REQUEST_def FRTA_ROUTE_REPLY_def FRTA_ROUTE_ADVERTISEMENT_def
          FRTA_TRUST_UPDATE_def)
    then show ?thesis
    proof cases
      case 1
      with r h have "ProcessRouteRequest env packet sender st = Some (st', acts)"
        by (simp add: ReceiveRoutingPacket_def)
      then show ?thesis using h 1 by (rule no_log_ProcessRouteRequest)
    next
      case 2
      with r h have "ProcessRouteReply env packet sender st = Some (st', acts)"
        by (simp add: ReceiveRoutingPacket_def FRTA_ROUTE_REQUEST_def FRTA_ROUTE_REPLY_def)
      then show ?thesis by (rule no_log_ProcessRouteReply)
    next
      case 3
      with r h have "ProcessRouteAdvertisement env packet sender st = Some (st', acts)"
        by (simp add: ReceiveRoutingPacket_def FRTA_ROUTE_REQUEST_def FRTA_ROUTE_REPLY_def
            FRTA_ROUTE_ADVERTISEMENT_def)
      then show ?thesis by (rule no_log_ProcessRouteAdvertisement)
    next
      case 4
      with r h have "acts = []"
        by (auto simp: ReceiveRoutingPacket_def FRTA_ROUTE_REQUEST_def FRTA_ROUTE_REPLY_def
            FRTA_ROUTE_ADVERTISEMENT_def FRTA_TRUST_UPDATE_def)
      then show ?thesis by simp
    qed
  qed
  show ?thesis
    using dec [of buf h n] coerce nolog by blast
qed

theorem received_type_always_known_witness:
  "FrtaHeader_Deserialize [9] = Some (\<lparr>m_type = 1\<rparr>, 1) \<and>
   GetMessageType \<lparr>m_type = 1\<rparr> \<in> {1, 2, 3, 4} \<and>
   \<not> (1 \<le> (9 :: byte) \<and> (9 :: byte) \<le> 4) \<and>
   ReceiveRoutingPacket (env_at 0 2 0) \<lparr>buffer = [4], trustTag = None\<rparr> 1
     FrtaRoutingProtocol_new = Some (UpdateTrustValue 1 0.5 FrtaRoutingProtocol_new, []) \<and>
   LogUnknownPacketType 4 \<notin> set [] \<and> LogWrongPacketType 4 \<notin> set []"
  using received_type_always_known
    [of "[9]" "\<lparr>m_type = 1\<rparr>" 1 9 "[]" "env_at 0 2 0" "\<lparr>buffer = [4], trustTag = None\<rparr>" 1
      FrtaRoutingProtocol_new "UpdateTrustValue 1 0.5 FrtaRoutingProtocol_new" "[]" 4]
  by (simp add: FrtaHeader_Deserialize_def FrtaHeader_GetSerializedSize_def
      FRTA_ROUTE_REQUEST_def GetMessageType_def ReceiveRoutingPacket_def PeekHeader_def
      FRTA_ROUTE_REPLY_def FRTA_ROUTE_ADVERTISEMENT_def FRTA_TRUST_UPDATE_def)

text \<open>
  Claim C7. For a destination that is not the broadcast address, \<^verbatim>\<open>RouteOutput\<close>
  returns a route whose gateway is the next hop of the cache entry when the route cache holds
  an entry for the destination whose age \<open>now - lastUpdate\<close> is less than
  \<^verbatim>\<open>ROUTE_CACHE_TIMEOUT\<close>, and leaves the state alone. Otherwise it returns no route, sets
  the error to \<^verbatim>\<open>ERROR_NOROUTETOHOST\<close>, and broadcasts a route request for the destination
  if and only if no request for it is pending: when none is pending it does what
  \<^verbatim>\<open>SendRouteRequest\<close> does, when one is pending it does nothing.
\<close>

theorem route_output_hit_or_discovery:
  assumes "\<not> IsBroadcast destination"
    and "RouteOutput env destination sockerr st = (route, sockerr', st', acts)"
  shows
   "((\<exists>e. m_routeCache st destination = Some e \<and>
          now env - lastUpdate e < ROUTE_CACHE_TIMEOUT) \<longrightarrow>
       (\<exists>e. m_routeCache st destination = Some e \<and>
            route = Some \<lparr>route_destination = destination, route_gateway = nextHop e,
                          route_source = localAddress env\<rparr>) \<and>
       sockerr' = ERROR_NOTERROR \<and> st' = st \<and> acts = []) \<and>
    (\<not> (\<exists>e. m_routeCache st destination = Some e \<and>
            now env - lastUpdate e < ROUTE_CACHE_TIMEOUT) \<longrightarrow>
       route = None \<and> sockerr' = ERROR_NOROUTETOHOST \<and>
       (SendTo \<lparr>buffer = [Frta \<lparr>m_type = FRTA_ROUTE_REQUEST\<rparr>,
                          RouteRequest \<lparr>req_destination = destination,
                                        req_source = localAddress env, req_hopCount = 0\<rparr>],
                trustTag = None\<rparr> GetBroadcast \<in> set acts
          \<longleftrightarrow> destination \<notin> m_pendingRequests st) \<and>
       (destination \<notin> m_pendingRequests st \<longrightarrow>
          (st', acts) = SendRouteRequest env destination st) \<and>
       (destination \<in> m_pendingRequests st \<longrightarrow> st' = st \<and> acts = []))"
  using assms
  by (auto simp: RouteOutput_def SendRouteRequest_def AddHeader_def Create_Packet_def Let_def
      split: option.splits if_splits)

theorem route_output_hit_or_discovery_witness:
  "\<not> IsBroadcast 3 \<and>
   (\<exists>e. m_routeCache (FrtaRoutingProtocol_new\<lparr>m_routeCache :=
            [3 \<mapsto> \<lparr>nextHop = 2, trust = 0.9, lastUpdate = 0, hopCount = 1\<rparr>]\<rparr>) 3 = Some e \<and>
        now (env_at 1000 1 0) - lastUpdate e < ROUTE_CACHE_TIMEOUT) \<and>
   RouteOutput (env_at 1000 1 0) 3 ERROR_NOROUTETOHOST
     (FrtaRoutingProtocol_new\<lparr>m_routeCache :=
        [3 \<mapsto> \<lparr>nextHop = 2, trust = 0.9, lastUpdate = 0, hopCount = 1\<rparr>]\<rparr>) =
     (Some \<lparr>route_destination = 3, route_gateway = 2, route_source = 1\<rparr>, ERROR_NOTERROR,
      FrtaRoutingProtocol_new\<lparr>m_routeCache :=
        [3 \<mapsto> \<lparr>nextHop = 2, trust = 0.9, lastUpdate = 0, hopCount = 1\<rparr>]\<rparr>, []) \<and>
   \<not> (\<exists>e. m_routeCache FrtaRoutingProtocol_new 3 = Some e \<and>
          now (env_at 1000 1 0) - lastUpdate e < ROUTE_CACHE_TIMEOUT) \<and>
   3 \<notin> m_pendingRequests FrtaRoutingProtocol_new \<and>
   RouteOutput (env_at 1000 1 0) 3 ERROR_NOTERROR FrtaRoutingProtocol_new =
     (None, ERROR_NOROUTETOHOST, SendRouteRequest (env_at 1000 1 0) 3 FrtaRoutingProtocol_new)"
  using
    route_output_hit_or_discovery
      [of 3 "env_at 1000 1 0" ERROR_NOROUTETOHOST
        "FrtaRoutingProtocol_new\<lparr>m_routeCache :=
           [3 \<mapsto> \<lparr>nextHop = 2, trust = 0.9, lastUpdate = 0, hopCount = 1\<rparr>]\<rparr>"
        "Some \<lparr>route_destination = 3, route_gateway = 2, route_source = 1\<rparr>" ERROR_NOTERROR
        "FrtaRoutingProtocol_new\<lparr>m_routeCache :=
           [3 \<mapsto> \<lparr>nextHop = 2, trust = 0.9, lastUpdate = 0, hopCount = 1\<rparr>]\<rparr>" "[]"]
    route_output_hit_or_discovery
      [of 3 "env_at 1000 1 0" ERROR_NOTERROR FrtaRoutingProtocol_new None ERROR_NOROUTETOHOST
        "fst (SendRouteRequest (env_at 1000 1 0) 3 FrtaRoutingProtocol_new)"
        "snd (SendRouteRequest (env_at 1000 1 0) 3 FrtaRoutingProtocol_new)"]
  by (simp add: IsBroadcast_def RouteOutput_def FrtaRoutingProtocol_new_def
      ROUTE_CACHE_TIMEOUT_def Seconds_def env_at_def)

text \<open>The bytes of the two headers of a request, as \<^verbatim>\<open>AddHeader\<close> lays them out.\<close>

lemma upt_12_20: "[12..<20] = [12, 13, 14, 15, 16, 17, 18, 19 :: nat]"
  by simp

lemma header_bytes_Frta: "header_bytes bits unwritten (Frta h) = [m_type h]"
  by (simp add: AddHeader_bytes_def FrtaHeader_GetSerializedSize_def FrtaHeader_Serialize_def
      WriteU8_def)

lemma header_bytes_RouteRequest:
  "header_bytes bits unwritten (RouteRequest h) =
     RouteRequestHeader_Serialize h @
     [unwritten 12, unwritten 13, unwritten 14, unwritten 15,
      unwritten 16, unwritten 17, unwritten 18, unwritten 19]"
proof -
  have "length (RouteRequestHeader_Serialize h) = 12"
    by (simp add: RouteRequestHeader_Serialize_def length_WriteHtonU32)
  then show ?thesis
    by (simp add: AddHeader_bytes_def RouteRequestHeader_GetSerializedSize_def upt_12_20)
qed

lemma hop_limit_exceeded: "\<not> (256 OR (x :: 32 word) < MAX_HOP_COUNT)"
proof -
  have "(256 :: 32 word) \<le> 256 OR x"
    by (rule le_word_or2)
  moreover have "(10 :: 32 word) < 256"
    by simp
  ultimately have "(10 :: 32 word) < 256 OR x"
    by (rule order.strict_trans2 [rotated])
  then show ?thesis
    unfolding MAX_HOP_COUNT_def by (simp add: not_less order.strict_implies_order)
qed

text \<open>
  The decision of \<^verbatim>\<open>ProcessRouteRequest\<close> to forward: a request at the hop limit is never
  forwarded nor sent, whatever else holds; below the limit, when the node is neither source nor
  destination and the cache holds no fresh route to the destination at the time of the lookup,
  which is after the reverse route to the source has been stored, exactly one call of
  \<^verbatim>\<open>ForwardRouteRequest\<close> is scheduled, after 0 to 1000 microseconds, for a packet whose
  request header has the hop count incremented by 1.
\<close>

lemma request_not_forwarded_at_hop_limit:
  assumes "\<not> req_hopCount msg < MAX_HOP_COUNT"
    and "ProcessRouteRequest env
           \<lparr>buffer = tag # RouteRequestHeader_Serialize msg @ rest, trustTag = tg\<rparr> sender st =
         Some (st', acts)"
  shows "Schedule delay (ForwardRouteRequest_event forwardPacket) \<notin> set acts \<and>
         SendTo packet address \<notin> set acts"
  using assms
  by (auto simp: ProcessRouteRequest_def RemoveHeader_FrtaHeader RemoveHeader_RouteRequestHeader
      Let_def SendRouteReply_actions prod_eq_iff split: if_splits)

lemma request_forward_scheduled_once:
  assumes "tag \<notin> {FRTA_ROUTE_REPLY, FRTA_ROUTE_ADVERTISEMENT, FRTA_TRUST_UPDATE}"
    and "req_source msg \<noteq> localAddress env"
    and "req_destination msg \<noteq> localAddress env"
    and "\<not> (\<exists>e. ((m_routeCache st)
                   (req_source msg \<mapsto>
                      \<lparr>nextHop = sender, trust = 0.7, lastUpdate = now env,
                       hopCount = req_hopCount msg + 1\<rparr>)) (req_destination msg) = Some e \<and>
               now env - lastUpdate e < ROUTE_CACHE_TIMEOUT)"
    and "req_hopCount msg < MAX_HOP_COUNT"
  shows "\<exists>st'. ProcessRouteRequest env
            \<lparr>buffer = tag # RouteRequestHeader_Serialize msg @ rest, trustTag = tg\<rparr> sender st =
          Some (st',
            [Schedule (MicroSeconds (GetInteger 0 1000 (draw env)))
               (ForwardRouteRequest_event
                  \<lparr>buffer = [RouteRequest (msg\<lparr>req_hopCount := req_hopCount msg + 1\<rparr>),
                             Frta \<lparr>m_type = FRTA_ROUTE_REQUEST\<rparr>],
                   trustTag = None\<rparr>)])"
    and "0 \<le> MicroSeconds (GetInteger 0 1000 (draw env))"
    and "MicroSeconds (GetInteger 0 1000 (draw env)) \<le> MicroSeconds 1000"
proof -
  have ty: "(if 1 \<le> tag \<and> tag \<le> 4 then \<lparr>m_type = tag\<rparr> else \<lparr>m_type = FRTA_ROUTE_REQUEST\<rparr>)
            = \<lparr>m_type = FRTA_ROUTE_REQUEST\<rparr>"
    using assms(1) byte_1_to_4 [of tag]
    by (auto simp: FRTA_ROUTE_REQUEST_def FRTA_ROUTE_REPLY_def FRTA_ROUTE_ADVERTISEMENT_def
        FRTA_TRUST_UPDATE_def)
  show "\<exists>st'. ProcessRouteRequest env
            \<lparr>buffer = tag # RouteRequestHeader_Serialize msg @ rest, trustTag = tg\<rparr> sender st =
          Some (st',
            [Schedule (MicroSeconds (GetInteger 0 1000 (draw env)))
               (ForwardRouteRequest_event
                  \<lparr>buffer = [RouteRequest (msg\<lparr>req_hopCount := req_hopCount msg + 1\<rparr>),
                             Frta \<lparr>m_type = FRTA_ROUTE_REQUEST\<rparr>],
                   trustTag = None\<rparr>)])"
    using assms(2-5)
    by (auto simp: ProcessRouteRequest_def RemoveHeader_FrtaHeader ty GetMessageType_def
        RemoveHeader_RouteRequestHeader Let_def UpdateTrustValue_others AddHeader_def
        Create_Packet_def split: option.splits)
  show "0 \<le> MicroSeconds (GetInteger 0 1000 (draw env))"
    by (simp add: MicroSeconds_def)
  show "MicroSeconds (GetInteger 0 1000 (draw env)) \<le> MicroSeconds 1000"
    by (simp add: MicroSeconds_def GetInteger_def)
qed

text \<open>
  Claim C8. The claim reads: a route request received with a hop count of at least
  \<^verbatim>\<open>MAX_HOP_COUNT\<close> (10) by a node that is neither its source nor its destination and has no
  fresh cached route to the destination is never rebroadcast; with a hop count below 10 it is
  rebroadcast exactly once with the hop count incremented by 1, after a jitter of 0 to 1000
  microseconds. The node decides as the claim says (\<^verbatim>\<open>request_not_forwarded_at_hop_limit\<close>,
  \<^verbatim>\<open>request_forward_scheduled_once\<close>), but \<^verbatim>\<open>ProcessRouteRequest\<close> adds the FRTA header to
  the packet to forward before the request header, the opposite of \<^verbatim>\<open>SendRouteRequest\<close>,
  whose comment reads \<^verbatim>\<open>Add FRTA header last (will be first when receiving)\<close>; what it
  broadcasts is not received as the request with the hop count incremented. Node 10.1.1.1
  originates a request for 10.1.1.3: its datagram starts with the type byte 1, and node
  10.1.1.2, which receives it, schedules one call of \<^verbatim>\<open>ForwardRouteRequest\<close>, which
  broadcasts once. The datagram broadcast starts with the destination address and ends with
  the type byte. A receiver takes the byte 10 for the type, which decodes to REQUEST, and reads
  a request for 1.1.3.10 from 1.1.1.0 with a hop count of at least 256: the destination
  10.1.1.3, which answers the datagram of the originator with a route reply, neither answers
  the forwarded one nor forwards it.
\<close>

theorem forwarded_request_has_type_byte_last:
  "let request = \<lparr>req_destination = 0x0A010103, req_source = 0x0A010101, req_hopCount = 0\<rparr>;
       originated = \<lparr>buffer = [Frta \<lparr>m_type = FRTA_ROUTE_REQUEST\<rparr>, RouteRequest request],
                     trustTag = None\<rparr>;
       forwarded = \<lparr>buffer = [RouteRequest (request\<lparr>req_hopCount := 1\<rparr>),
                                Frta \<lparr>m_type = FRTA_ROUTE_REQUEST\<rparr>],
                    trustTag = None\<rparr>
   in snd (SendRouteRequest (env_at 0 0x0A010101 0) 0x0A010103 FrtaRoutingProtocol_new) =
        [SendTo originated GetBroadcast,
         Schedule ROUTE_REQUEST_TIMEOUT (HandleRouteRequestTimeout_event 0x0A010103)] \<and>
      buffer (wire bits unwritten originated) =
        [1, 10, 1, 1, 3, 10, 1, 1, 1, 0, 0, 0, 0,
         unwritten 12, unwritten 13, unwritten 14, unwritten 15,
         unwritten 16, unwritten 17, unwritten 18, unwritten 19] \<and>
      map_option snd
        (ReceiveRoutingPacket (env_at 0 0x0A010102 0) (wire bits unwritten originated)
           0x0A010101 FrtaRoutingProtocol_new) =
        Some [Schedule 0 (ForwardRouteRequest_event forwarded)] \<and>
      ForwardRouteRequest forwarded = [SendTo forwarded GetBroadcast] \<and>
      buffer (wire bits unwritten forwarded) =
        [10, 1, 1, 3, 10, 1, 1, 1, 0, 0, 0, 1,
         unwritten 12, unwritten 13, unwritten 14, unwritten 15,
         unwritten 16, unwritten 17, unwritten 18, unwritten 19, 1] \<and>
      (\<exists>body. RemoveHeader FrtaHeader_Deserialize (buffer (wire bits unwritten forwarded)) =
                 Some (\<lparr>m_type = FRTA_ROUTE_REQUEST\<rparr>, body) \<and>
               map_option fst (RemoveHeader RouteRequestHeader_Deserialize body) =
                 Some \<lparr>req_destination = 0x0101030A, req_source = 0x01010100,
                       req_hopCount = 256 OR ucast (unwritten 12)\<rparr>) \<and>
      map_option snd
        (ReceiveRoutingPacket (env_at 0 0x0A010103 0) (wire bits unwritten forwarded)
           0x0A010102 FrtaRoutingProtocol_new) = Some [] \<and>
      map_option snd
        (ReceiveRoutingPacket (env_at 0 0x0A010103 0) (wire bits unwritten originated)
           0x0A010101 FrtaRoutingProtocol_new) =
        Some [Schedule 0
                (SendDelayedReply_event
                   \<lparr>buffer = [RouteReply \<lparr>rep_destination = 0x0A010101,
                                           rep_nextHop = 0x0A010101, rep_trust = 0.64\<rparr>,
                              Frta \<lparr>m_type = FRTA_ROUTE_REPLY\<rparr>],
                    trustTag = None\<rparr> 0x0A010101)]"
proof -
  let ?request = "\<lparr>req_destination = 0x0A010103, req_source = 0x0A010101,
                   req_hopCount = 0\<rparr> :: RouteRequestHeader"
  let ?u = "[unwritten 12, unwritten 13, unwritten 14, unwritten 15,
             unwritten 16, unwritten 17, unwritten 18, unwritten 19]"
  let ?originated = "\<lparr>buffer = [Frta \<lparr>m_type = FRTA_ROUTE_REQUEST\<rparr>, RouteRequest ?request],
                      trustTag = None\<rparr>"
  let ?forwarded = "\<lparr>buffer = [RouteRequest \<lparr>req_destination = 0x0A010103,
                                   req_source = 0x0A010101, req_hopCount = 1\<rparr>,
                                 Frta \<lparr>m_type = FRTA_ROUTE_REQUEST\<rparr>],
                     trustTag = None\<rparr>"
  have sent: "snd (SendRouteRequest (env_at 0 0x0A010101 0) 0x0A010103 FrtaRoutingProtocol_new) =
        [SendTo ?originated GetBroadcast,
         Schedule ROUTE_REQUEST_TIMEOUT (HandleRouteRequestTimeout_event 0x0A010103)]"
    by (simp add: SendRouteRequest_def Let_def AddHeader_def Create_Packet_def env_at_def)
  have wo: "wire bits unwritten ?originated =
              \<lparr>buffer = 1 # RouteRequestHeader_Serialize ?request @ ?u, trustTag = None\<rparr>"
    by (simp add: wire_def header_bytes_Frta header_bytes_RouteRequest FRTA_ROUTE_REQUEST_def
        del: header_bytes.simps)
  have wf: "wire bits unwritten ?forwarded =
              \<lparr>buffer = [10, 1, 1, 3, 10, 1, 1, 1, 0, 0, 0, 1] @ ?u @ [1], trustTag = None\<rparr>"
    by (simp add: wire_def header_bytes_Frta header_bytes_RouteRequest
        RouteRequestHeader_Serialize_def WriteHtonU32_def FRTA_ROUTE_REQUEST_def
        del: header_bytes.simps)
  have bo: "buffer (wire bits unwritten ?originated) = [1, 10, 1, 1, 3, 10, 1, 1, 1, 0, 0, 0, 0] @ ?u"
    by (simp add: wo RouteRequestHeader_Serialize_def WriteHtonU32_def)
  have decoded: "RemoveHeader RouteRequestHeader_Deserialize
                   ([1, 1, 3, 10, 1, 1, 1, 0, 0, 0, 1] @ ?u @ [1]) =
                 Some (\<lparr>req_destination = 0x0101030A, req_source = 0x01010100,
                         req_hopCount = 256 OR ucast (unwritten 12)\<rparr>, [])"
    by (simp add: RemoveHeader_def RouteRequestHeader_Deserialize_def
        RouteRequestHeader_GetSerializedSize_def)
  have first: "map_option snd
        (ReceiveRoutingPacket (env_at 0 0x0A010102 0) (wire bits unwritten ?originated)
           0x0A010101 FrtaRoutingProtocol_new) =
        Some [Schedule 0 (ForwardRouteRequest_event ?forwarded)]"
    unfolding wo
    by (simp add: ReceiveRoutingPacket_def PeekHeader_FrtaHeader RemoveHeader_FrtaHeader
        ProcessRouteRequest_def GetMessageType_def RemoveHeader_RouteRequestHeader
        FRTA_ROUTE_REQUEST_def FrtaRoutingProtocol_new_def MAX_HOP_COUNT_def UpdateTrustValue_def
        ROUTE_CACHE_TIMEOUT_def Seconds_def MicroSeconds_def GetInteger_def Let_def env_at_def
        AddHeader_def Create_Packet_def)
  have second: "map_option snd
        (ReceiveRoutingPacket (env_at 0 0x0A010103 0) (wire bits unwritten ?forwarded)
           0x0A010102 FrtaRoutingProtocol_new) = Some []"
    unfolding wf using decoded
    by (simp add: ReceiveRoutingPacket_def PeekHeader_FrtaHeader RemoveHeader_FrtaHeader
        ProcessRouteRequest_def GetMessageType_def FRTA_ROUTE_REQUEST_def
        FrtaRoutingProtocol_new_def hop_limit_exceeded UpdateTrustValue_def
        ROUTE_CACHE_TIMEOUT_def Seconds_def Let_def env_at_def)
  have answered: "map_option snd
        (ReceiveRoutingPacket (env_at 0 0x0A010103 0) (wire bits unwritten ?originated)
           0x0A010101 FrtaRoutingProtocol_new) =
        Some [Schedule 0
                (SendDelayedReply_event
                   \<lparr>buffer = [RouteReply \<lparr>rep_destination = 0x0A010101,
                                           rep_nextHop = 0x0A010101, rep_trust = 0.64\<rparr>,
                              Frta \<lparr>m_type = FRTA_ROUTE_REPLY\<rparr>],
                    trustTag = None\<rparr> 0x0A010101)]"
    unfolding wo
    by (simp add: ReceiveRoutingPacket_def PeekHeader_FrtaHeader RemoveHeader_FrtaHeader
        ProcessRouteRequest_def GetMessageType_def RemoveHeader_RouteRequestHeader
        FRTA_ROUTE_REQUEST_def FrtaRoutingProtocol_new_def UpdateTrustValue_def
        SendRouteReply_def subscript_def AddHeader_def Create_Packet_def
        MicroSeconds_def GetInteger_def Let_def env_at_def)
  have peeled: "\<exists>body. RemoveHeader FrtaHeader_Deserialize (buffer (wire bits unwritten ?forwarded)) =
                 Some (\<lparr>m_type = FRTA_ROUTE_REQUEST\<rparr>, body) \<and>
               map_option fst (RemoveHeader RouteRequestHeader_Deserialize body) =
                 Some \<lparr>req_destination = 0x0101030A, req_source = 0x01010100,
                       req_hopCount = 256 OR ucast (unwritten 12)\<rparr>"
    using decoded by (simp add: wf RemoveHeader_FrtaHeader)
  show ?thesis
    unfolding Let_def
    using sent bo first second answered peeled
    by (simp add: ForwardRouteRequest_def wf)
qed

text \<open>
  Claim C3. The claim reads: \<^verbatim>\<open>CalculatePathTrust\<close> returns 0.0 for the empty path and
  otherwise the minimum of the current trust values of the nodes of the path (0.5 for a node
  without one), also after \<^verbatim>\<open>UpdateTrustValue\<close> changed a member's trust since an earlier
  call on the same path. The code returns the value it cached at the earlier call: on a new
  node, the trust of the path [5] is 0.5; after \<^verbatim>\<open>UpdateTrustValue(5, 1.0)\<close> the trust of
  node 5 is 0.85 and so is the minimum over the path, yet the second call still returns 0.5.
\<close>

theorem path_trust_cache_returns_stale_value:
  "fst (CalculatePathTrust [5] FrtaRoutingProtocol_new) = 0.5 \<and>
   m_trustValues (UpdateTrustValue 5 1.0 (snd (CalculatePathTrust [5] FrtaRoutingProtocol_new))) 5
     = Some 0.85 \<and>
   spec_path_trust
     (m_trustValues (UpdateTrustValue 5 1.0 (snd (CalculatePathTrust [5] FrtaRoutingProtocol_new))))
     [5] = 0.85 \<and>
   fst (CalculatePathTrust [5]
          (UpdateTrustValue 5 1.0 (snd (CalculatePathTrust [5] FrtaRoutingProtocol_new)))) = 0.5"
  by (simp add: CalculatePathTrust_def FrtaRoutingProtocol_new_def UpdateTrustValue_def
      spec_path_trust_def Let_def)

lemma foldl_min_Min:
  "foldl (\<lambda>m x. min m (g x)) a xs = Min (insert (a :: real) (g ` set xs))"
proof (induction xs arbitrary: a)
  case Nil
  then show ?case by simp
next
  case (Cons x xs)
  have "Min (insert (min a (g x)) (g ` set xs)) = Min (insert a (insert (g x) (g ` set xs)))"
    by (cases "xs = []") (simp_all add: min.assoc)
  with Cons show ?case by simp
qed

text \<open>
  As long as no value is cached for the path, and the trust values of its nodes are at most 1,
  \<^verbatim>\<open>CalculatePathTrust\<close> does return the minimum member trust.
\<close>

lemma CalculatePathTrust_uncached:
  assumes "path \<noteq> []" and "m_pathTrustValues st path = None"
    and "\<forall>node\<in>set path. \<forall>v. m_trustValues st node = Some v \<longrightarrow> v \<le> 1"
  shows "fst (CalculatePathTrust path st) = spec_path_trust (m_trustValues st) path"
proof -
  let ?g = "\<lambda>node. case m_trustValues st node of Some v \<Rightarrow> v | None \<Rightarrow> 0.5"
  have f: "(\<lambda>minTrust node. case m_trustValues st node of Some v \<Rightarrow> min minTrust v
                              | None \<Rightarrow> min minTrust 0.5) = (\<lambda>m x. min m (?g x))"
    by (auto simp: fun_eq_iff split: option.splits)
  have le: "\<forall>y \<in> ?g ` set path. y \<le> 1"
    using assms(3) by (auto split: option.splits)
  have ne: "?g ` set path \<noteq> {}" using assms(1) by simp
  have "Min (?g ` set path) \<in> ?g ` set path"
    using ne by (intro Min_in) simp_all
  with le have "Min (?g ` set path) \<le> 1" by blast
  then have "Min (insert 1 (?g ` set path)) = Min (?g ` set path)"
    using ne by (simp add: min_absorb2)
  then show ?thesis
    using assms(1,2)
    by (simp add: CalculatePathTrust_def f foldl_min_Min spec_path_trust_def Let_def)
qed

section \<open>The trust values of a node\<close>








lemma trust_in_other_members [simp]:
  "trust_in lo (st\<lparr>m_routeCache := c\<rparr>) = trust_in lo st"
  "trust_in lo (st\<lparr>m_pendingRequests := p\<rparr>) = trust_in lo st"
  "trust_in lo (st\<lparr>m_routeRequestTime := r\<rparr>) = trust_in lo st"
  "trust_in lo (st\<lparr>m_pathTrustValues := q\<rparr>) = trust_in lo st"
  "trust_in lo (st\<lparr>m_running := b\<rparr>) = trust_in lo st"
  "trust_in lo (st\<lparr>m_updateInterval := i\<rparr>) = trust_in lo st"
  "trust_in lo (st\<lparr>m_packetCounts := pc\<rparr>) = trust_in lo st"
  "trust_in lo (st\<lparr>m_collisionDetector := cd\<rparr>) = trust_in lo st"
  by (simp_all add: trust_in_def)





























end
